theory Spec2Isabelle
  imports Main
begin

section \<open>Python strings\<close>

text \<open>
  A Python \<open>str\<close> is modelled as a \<open>string\<close> holding its UTF-8 bytes; on well-formed
  UTF-8 a substring of bytes is a substring of code points. The library methods the
  chatbot calls are written out here, except \<open>str.lower\<close>: it follows the Unicode case
  tables, which are no part of the program, so every function that calls it takes the
  lowercasing function as its first argument \<open>lower\<close>, and the theorems hold for every
  such function. \<open>ascii_lower\<close> is \<open>str.lower\<close> on ASCII text; the evaluations on
  concrete ASCII inputs use it. \<open>str.title\<close> is applied to the ASCII topic names only.
\<close>

definition ascii_uppercase :: string where
  "ascii_uppercase = ''ABCDEFGHIJKLMNOPQRSTUVWXYZ''"

definition ascii_lowercase :: string where
  "ascii_lowercase = ''abcdefghijklmnopqrstuvwxyz''"

definition is_alpha :: "char \<Rightarrow> bool" where
  "is_alpha c = (c \<in> set ascii_uppercase \<or> c \<in> set ascii_lowercase)"

definition lower_char :: "char \<Rightarrow> char" where
  "lower_char c =
     (case map_of (zip ascii_uppercase ascii_lowercase) c of Some d \<Rightarrow> d | None \<Rightarrow> c)"

definition upper_char :: "char \<Rightarrow> char" where
  "upper_char c =
     (case map_of (zip ascii_lowercase ascii_uppercase) c of Some d \<Rightarrow> d | None \<Rightarrow> c)"

text \<open>\<open>s.lower()\<close> for a string of ASCII characters\<close>

definition ascii_lower :: "string \<Rightarrow> string" where
  "ascii_lower s = map lower_char s"

text \<open>\<open>s.replace(a, b)\<close> for one-character \<open>a\<close> and \<open>b\<close>\<close>

definition str_replace :: "char \<Rightarrow> char \<Rightarrow> string \<Rightarrow> string" where
  "str_replace a b s = map (\<lambda>c. if c = a then b else c) s"

text \<open>
  \<open>s.title()\<close>: a letter that follows a letter is lowercased, any other letter is
  uppercased; the flag says whether the previous character was a letter.
\<close>

fun title_from :: "bool \<Rightarrow> string \<Rightarrow> string" where
  "title_from prev [] = []"
| "title_from prev (c # cs) =
     (if is_alpha c
      then (if prev then lower_char c else upper_char c) # title_from True cs
      else c # title_from False cs)"

definition str_title :: "string \<Rightarrow> string" where
  "str_title s = title_from False s"

text \<open>\<open>sep.join(xs)\<close>\<close>

fun str_join :: "string \<Rightarrow> string list \<Rightarrow> string" where
  "str_join sep [] = []"
| "str_join sep [x] = x"
| "str_join sep (x # y # ys) = x @ sep @ str_join sep (y # ys)"

text \<open>\<open>s.startswith(p)\<close> and \<open>p in s\<close> (substring containment)\<close>

fun starts_with :: "string \<Rightarrow> string \<Rightarrow> bool" where
  "starts_with [] s = True"
| "starts_with (p # ps) [] = False"
| "starts_with (p # ps) (c # cs) = (p = c \<and> starts_with ps cs)"

fun str_in :: "string \<Rightarrow> string \<Rightarrow> bool" where
  "str_in p [] = (p = [])"
| "str_in p (c # cs) = (starts_with p (c # cs) \<or> str_in p cs)"

text \<open>Truthiness of an \<open>Optional[str]\<close>: \<open>None\<close> and the empty string are false.\<close>

fun truthy :: "string option \<Rightarrow> bool" where
  "truthy None = False"
| "truthy (Some s) = (s \<noteq> [])"

section \<open>Data model\<close>

text \<open>
  A fact of the knowledge base is a single string or an ordered list of strings. A crop
  record maps topic keys to facts and the knowledge base maps crop names to records. Both
  are Python dicts with their insertion order, modelled as association lists: the keys are
  \<open>map fst\<close>, membership is membership in the keys and indexing is \<open>map_of\<close>.
\<close>

datatype fact = Str string | Lst "string list"

type_synonym crop_record = "(string \<times> fact) list"

type_synonym knowledge_base = "(string \<times> crop_record) list"

record ChatResponse =
  response :: string
  crop_type :: "string option"
  suggestions :: "string list option"

section \<open>FarmingChatbot\<close>

text \<open>
  \<open>load_crop_data_safe\<close>: the file system is a partial map from file names to the parsed
  JSON content. A missing file gives the empty knowledge base and one line of diagnostic
  output; the result is the printed lines paired with the data.
\<close>

definition load_crop_data_safe ::
    "(string \<rightharpoonup> knowledge_base) \<Rightarrow> string \<Rightarrow> string list \<times> knowledge_base" where
  "load_crop_data_safe fs filename =
     (case fs filename of
        None \<Rightarrow>
          ([[CHR 0xC3, CHR 0xA2, CHR 0xC5, CHR 0x92] @ '' File '' @ filename
              @ '' not found. Using empty data.''], [])
      | Some data \<Rightarrow> ([], data))"

definition get_available_crops :: "knowledge_base \<Rightarrow> string list" where
  "get_available_crops crop_data = map fst crop_data"

text \<open>\<open>detect_crop\<close>: the loop over the keys, returning at the first match.\<close>

fun detect_loop ::
    "(string \<Rightarrow> string) \<Rightarrow> string \<Rightarrow> string list \<Rightarrow> string option" where
  "detect_loop lower message_lower [] = None"
| "detect_loop lower message_lower (crop # crops) =
     (if str_in (lower crop) message_lower then Some crop
      else detect_loop lower message_lower crops)"

definition detect_crop ::
    "(string \<Rightarrow> string) \<Rightarrow> knowledge_base \<Rightarrow> string \<Rightarrow> string option" where
  "detect_crop lower crop_data message =
     detect_loop lower (lower message) (map fst crop_data)"

definition keyword_map :: "(string \<times> string) list" where
  "keyword_map =
     [(''plant'', ''season''),
      (''sow'', ''season''),
      (''water'', ''watering''),
      (''irrigation'', ''irrigation_methods''),
      (''fertilizer'', ''fertilizer''),
      (''nutrition'', ''fertilizer''),
      (''harvest'', ''harvesting''),
      (''problem'', ''pests''),
      (''disease'', ''pests''),
      (''pest'', ''pests''),
      (''tip'', ''organic_tips''),
      (''advice'', ''organic_tips''),
      (''soil'', ''soil''),
      (''yield'', ''yield''),
      (''spacing'', ''spacing''),
      (''variety'', ''varieties''),
      (''germinate'', ''germination''),
      (''intercrop'', ''intercropping''),
      (''prune'', ''pruning''),
      (''special'', ''special_notes''),
      (''process'', ''processing''),
      (''store'', ''storage''),
      (''climate'', ''climate''),
      (''propagate'', ''propagation''),
      (''economic'', ''economic_life'')]"

fun topic_loop :: "string \<Rightarrow> (string \<times> string) list \<Rightarrow> string option" where
  "topic_loop message_lower [] = None"
| "topic_loop message_lower ((keyword, topic) # items) =
     (if str_in keyword message_lower then Some topic
      else topic_loop message_lower items)"

definition find_matching_topic ::
    "(string \<Rightarrow> string) \<Rightarrow> string \<Rightarrow> crop_record \<Rightarrow> string option" where
  "find_matching_topic lower message crop_info = topic_loop (lower message) keyword_map"

text \<open>The bullet marker, as the bytes of the source's string literal.\<close>

definition bullet :: string where
  "bullet = [CHR 0xC3, CHR 0xA2, CHR 0xE2, CHR 0x82, CHR 0xAC, CHR 0xC2, CHR 0xA2, CHR '' '']"

definition main_topics :: "string list" where
  "main_topics =
     [''season'', ''soil'', ''watering'', ''fertilizer'', ''pests'', ''harvesting'',
      ''yield'', ''spacing'', ''varieties'', ''organic_tips'']"

text \<open>The value as the general summary shows it: a list is joined, a string is itself.\<close>

fun summary_value :: "fact \<Rightarrow> string" where
  "summary_value (Lst xs) = str_join (CHR ''\<newline>'' # bullet) xs"
| "summary_value (Str s) = s"

text \<open>The block one main topic adds to the general summary (the f-string of the loop).\<close>

definition topic_block :: "string \<Rightarrow> fact \<Rightarrow> string" where
  "topic_block t v =
     ''**'' @ str_title (str_replace (CHR ''_'') (CHR '' '') t) @ '':** ''
       @ summary_value v @ ''\<newline>\<newline>''"

text \<open>The loop over \<open>main_topics\<close>, with the response built so far.\<close>

fun general_loop :: "crop_record \<Rightarrow> string list \<Rightarrow> string \<Rightarrow> string" where
  "general_loop crop_info [] resp = resp"
| "general_loop crop_info (t # ts) resp =
     (case map_of crop_info t of
        Some v \<Rightarrow> general_loop crop_info ts (resp @ topic_block t v)
      | None \<Rightarrow> general_loop crop_info ts resp)"

text \<open>
  \<open>get_crop_advice\<close>: \<open>crop not in self.crop_data\<close> is \<open>map_of crop_data crop = None\<close>;
  \<open>if topic:\<close> is the truthiness of the optional topic.
\<close>

definition get_crop_advice :: "knowledge_base \<Rightarrow> string \<Rightarrow> string option \<Rightarrow> string" where
  "get_crop_advice crop_data crop topic =
     (case map_of crop_data crop of
        None \<Rightarrow>
          ''Sorry, I don't have information about '' @ crop @ ''. Available crops: ''
            @ str_join '', '' (get_available_crops crop_data)
      | Some crop_info \<Rightarrow>
          (case (if truthy topic then topic else None) of
             Some t \<Rightarrow>
               (case map_of crop_info t of
                  Some (Lst xs) \<Rightarrow> bullet @ str_join (CHR ''\<newline>'' # bullet) xs
                | Some (Str s) \<Rightarrow> s
                | None \<Rightarrow> ''No information available for '' @ t @ '' of '' @ crop @ ''.'')
           | None \<Rightarrow>
               general_loop crop_info main_topics
                 (''Here's general information about '' @ crop @ '':\<newline>\<newline>'')))"

definition greeting_response :: ChatResponse where
  "greeting_response =
     \<lparr>response = ''Hello! I'm your farming assistant. I can help you with crop info, irrigation, fertilizers, pests, and more.'',
      crop_type = None,
      suggestions = Some [''What crops do you know about?'', ''Tell me about wheat farming'']\<rparr>"

definition default_response :: ChatResponse where
  "default_response =
     \<lparr>response = ''I'm here to help with comprehensive farming guidance! Ask me about specific crops or topics.'',
      crop_type = None,
      suggestions = Some [''Available crops'', ''Organic farming tips'']\<rparr>"

definition process_message ::
    "(string \<Rightarrow> string) \<Rightarrow> knowledge_base \<Rightarrow> string \<Rightarrow> string option \<Rightarrow> ChatResponse" where
  "process_message lower crop_data message crop_hint =
     (let message_lower = lower message;
          crop = (if \<not> truthy crop_hint then detect_crop lower crop_data message
                  else crop_hint)
      in if list_ex (\<lambda>greeting. str_in greeting message_lower) [''hello'', ''hi'', ''hey'']
         then greeting_response
         else if str_in ''what crops'' message_lower \<or> str_in ''available crops'' message_lower
         then (let crops = get_available_crops crop_data
               in \<lparr>response = ''I have information about: '' @ str_join '', '' crops,
                   crop_type = None,
                   suggestions = Some (map (\<lambda>c. ''Complete guide for '' @ c) (take 4 crops))\<rparr>)
         else (case crop of
                 Some c \<Rightarrow>
                   (if c \<noteq> [] then
                      (case map_of crop_data c of
                         Some crop_info \<Rightarrow>
                           (let specific_topic = find_matching_topic lower message crop_info;
                                advice = get_crop_advice crop_data c specific_topic
                            in \<lparr>response = advice, crop_type = Some c, suggestions = None\<rparr>)
                       | None \<Rightarrow> default_response)
                    else default_response)
               | None \<Rightarrow> default_response))"

section \<open>Substring containment and joining\<close>

text \<open>The definitions that evaluate the string methods on a literal.\<close>

lemmas str_defs = ascii_lower_def lower_char_def upper_char_def is_alpha_def
  ascii_uppercase_def ascii_lowercase_def str_title_def str_replace_def

lemma starts_with_iff: "starts_with p s \<longleftrightarrow> (\<exists>ss. s = p @ ss)"
  by (induction p s rule: starts_with.induct) auto

lemma str_in_iff: "str_in p s \<longleftrightarrow> (\<exists>ps ss. s = ps @ p @ ss)"
proof (induction s)
  case Nil
  show ?case by simp
next
  case (Cons c cs)
  have "(\<exists>ps ss. c # cs = ps @ p @ ss) \<longleftrightarrow>
        (\<exists>ss. c # cs = p @ ss) \<or> (\<exists>ps ss. cs = ps @ p @ ss)"
  proof
    assume "\<exists>ps ss. c # cs = ps @ p @ ss"
    then obtain ps ss where e: "c # cs = ps @ p @ ss" by blast
    show "(\<exists>ss. c # cs = p @ ss) \<or> (\<exists>ps ss. cs = ps @ p @ ss)"
    proof (cases ps)
      case Nil
      with e show ?thesis by auto
    next
      case (Cons q qs)
      with e have "cs = qs @ p @ ss" by simp
      then show ?thesis by blast
    qed
  next
    assume "(\<exists>ss. c # cs = p @ ss) \<or> (\<exists>ps ss. cs = ps @ p @ ss)"
    then show "\<exists>ps ss. c # cs = ps @ p @ ss"
    proof
      assume "\<exists>ss. c # cs = p @ ss"
      then obtain ss where "c # cs = [] @ p @ ss" by auto
      then show ?thesis by blast
    next
      assume "\<exists>ps ss. cs = ps @ p @ ss"
      then obtain ps ss where "cs = ps @ p @ ss" by blast
      then have "c # cs = (c # ps) @ p @ ss" by simp
      then show ?thesis by blast
    qed
  qed
  with Cons show ?case by (simp add: starts_with_iff)
qed

lemma str_in_self: "str_in p (a @ p @ b)"
  unfolding str_in_iff by blast

lemma str_in_append: "str_in p s \<Longrightarrow> str_in p (a @ s @ b)"
proof -
  assume "str_in p s"
  then obtain ps ss where "s = ps @ p @ ss" unfolding str_in_iff by blast
  then have "a @ s @ b = (a @ ps) @ p @ (ss @ b)" by simp
  then show ?thesis unfolding str_in_iff by blast
qed

lemma str_in_join: "x \<in> set xs \<Longrightarrow> str_in x (str_join sep xs)"
proof (induction sep xs rule: str_join.induct)
  case (1 sep)
  then show ?case by simp
next
  case (2 sep y)
  then show ?case using str_in_self [of x "[]" "[]"] by simp
next
  case (3 sep y z zs)
  show ?case
  proof (cases "x = y")
    case True
    then show ?thesis using str_in_self [of y "[]" "sep @ str_join sep (z # zs)"] by simp
  next
    case False
    with 3 have "str_in x (str_join sep (z # zs))" by simp
    then show ?thesis using str_in_append [of x _ "y @ sep" "[]"] by simp
  qed
qed

lemma detect_loop_find:
  "detect_loop lower ml crops = find (\<lambda>crop. str_in (lower crop) ml) crops"
  by (induction crops) simp_all

lemma topic_loop_find:
  "topic_loop ml items = map_option snd (find (\<lambda>(keyword, topic). str_in keyword ml) items)"
  by (induction items) auto

section \<open>Crop detection\<close>

text \<open>
  C1: for every knowledge base and every message, \<open>detect_crop\<close> returns the first crop
  key, in the insertion order of the knowledge base, whose lowercased name is a substring
  of the lowercased message, and \<open>None\<close> when no key qualifies, whatever the lowercasing
  function is. (\<open>find\<close> is the first element of a list that satisfies a predicate, or
  \<open>None\<close>.)
\<close>

theorem detect_crop_first_match:
  "detect_crop lower kb message =
     find (\<lambda>crop. \<exists>ps ss. lower message = ps @ lower crop @ ss) (map fst kb)"
  by (simp add: detect_crop_def detect_loop_find str_in_iff)

text \<open>
  The theorem at a message that names two crops: "Wheat" comes first in the knowledge base
  and is returned, although "RICE" comes first in the message.
\<close>

theorem detect_crop_first_match_witness:
  "find (\<lambda>crop. \<exists>ps ss. ascii_lower ''I grow RICE and wheat'' = ps @ ascii_lower crop @ ss)
     (map fst ([(''Maize'', []), (''Wheat'', []), (''Rice'', [])] :: knowledge_base))
   = Some ''Wheat''"
proof -
  have "detect_crop ascii_lower [(''Maize'', []), (''Wheat'', []), (''Rice'', [])]
          ''I grow RICE and wheat'' = Some ''Wheat''"
    by (simp add: detect_crop_def str_defs)
  with detect_crop_first_match
         [of ascii_lower "[(''Maize'', []), (''Wheat'', []), (''Rice'', [])]"
             "''I grow RICE and wheat''", symmetric]
  show ?thesis by (rule trans)
qed

section \<open>Topic resolution\<close>

text \<open>
  C2 (as the code has it): \<open>find_matching_topic\<close> returns the topic of the first keyword,
  in the fixed table order, that is a substring of the lowercased message, and \<open>None\<close>
  when no keyword occurs, whatever the lowercasing function is; the result depends on
  which keywords occur, not on where. A
  message containing both "water" and "soil" resolves to watering unless it also contains
  "plant" or "sow", the two keywords before "water" in the table, and then to season; it
  never resolves to soil.
\<close>

theorem find_matching_topic_table_order:
  "find_matching_topic lower message crop_info =
     map_option snd
       (find (\<lambda>(keyword, topic). \<exists>ps ss. lower message = ps @ keyword @ ss) keyword_map)
   \<and> map fst keyword_map =
       [''plant'', ''sow'', ''water'', ''irrigation'', ''fertilizer'', ''nutrition'',
        ''harvest'', ''problem'', ''disease'', ''pest'', ''tip'', ''advice'', ''soil'',
        ''yield'', ''spacing'', ''variety'', ''germinate'', ''intercrop'', ''prune'',
        ''special'', ''process'', ''store'', ''climate'', ''propagate'', ''economic'']
   \<and> (str_in ''water'' (lower message) \<and> str_in ''soil'' (lower message) \<longrightarrow>
        find_matching_topic lower message crop_info =
          (if str_in ''plant'' (lower message) \<or> str_in ''sow'' (lower message)
           then Some ''season'' else Some ''watering''))"
proof (intro conjI impI)
  show "find_matching_topic lower message crop_info =
     map_option snd
       (find (\<lambda>(keyword, topic). \<exists>ps ss. lower message = ps @ keyword @ ss) keyword_map)"
    by (simp only: find_matching_topic_def topic_loop_find str_in_iff)
next
  show "map fst keyword_map =
       [''plant'', ''sow'', ''water'', ''irrigation'', ''fertilizer'', ''nutrition'',
        ''harvest'', ''problem'', ''disease'', ''pest'', ''tip'', ''advice'', ''soil'',
        ''yield'', ''spacing'', ''variety'', ''germinate'', ''intercrop'', ''prune'',
        ''special'', ''process'', ''store'', ''climate'', ''propagate'', ''economic'']"
    by (simp add: keyword_map_def)
next
  assume "str_in ''water'' (lower message) \<and> str_in ''soil'' (lower message)"
  then show "find_matching_topic lower message crop_info =
          (if str_in ''plant'' (lower message) \<or> str_in ''sow'' (lower message)
           then Some ''season'' else Some ''watering'')"
    by (simp add: find_matching_topic_def keyword_map_def)
qed

text \<open>The theorem at a message in which "soil" comes before "water".\<close>

theorem find_matching_topic_table_order_witness:
  "str_in ''water'' (ascii_lower ''Is clay soil good? How often to water?'')
   \<and> str_in ''soil'' (ascii_lower ''Is clay soil good? How often to water?'')
   \<and> find_matching_topic ascii_lower ''Is clay soil good? How often to water?'' [] = Some ''watering''"
  using find_matching_topic_table_order
    [where lower = ascii_lower and message = "''Is clay soil good? How often to water?''"
       and crop_info = "[]", THEN conjunct2, THEN conjunct2]
  by (simp add: str_defs)

text \<open>
  A message containing both "water" and "soil" that does not resolve to watering: it also
  contains "plant".
\<close>

theorem water_and_soil_counterexample:
  "str_in ''water'' (ascii_lower ''Should I water the soil after planting?'')
   \<and> str_in ''soil'' (ascii_lower ''Should I water the soil after planting?'')
   \<and> find_matching_topic ascii_lower ''Should I water the soil after planting?'' [] = Some ''season''"
  by (simp add: find_matching_topic_def keyword_map_def str_defs)

section \<open>Advice formatting\<close>

lemma map_of_None_keys: "map_of kb k = None \<longleftrightarrow> k \<notin> set (get_available_crops kb)"
  by (simp add: get_available_crops_def map_of_eq_None_iff)

lemma general_loop_blocks:
  "general_loop info ts resp =
     resp @ concat (map (\<lambda>t. topic_block t (the (map_of info t)))
                        (filter (\<lambda>t. t \<in> set (map fst info)) ts))"
proof (induction ts arbitrary: resp)
  case Nil
  show ?case by simp
next
  case (Cons t ts)
  show ?case
  proof (cases "map_of info t")
    case None
    then have "t \<notin> set (map fst info)" by (simp add: map_of_eq_None_iff)
    with None Cons show ?thesis by simp
  next
    case (Some v)
    then have "t \<in> set (map fst info)" by (metis map_of_eq_None_iff option.distinct(1) set_map)
    with Some Cons show ?thesis by simp
  qed
qed

text \<open>
  C3: for every crop name that is not a key of the knowledge base and every topic argument,
  \<open>get_crop_advice\<close> returns the message that names that crop and lists every known crop
  name, joined by ", " in the insertion order of the knowledge base; the crop and every
  known crop name are substrings of it.
\<close>

theorem get_crop_advice_unknown_crop:
  assumes "crop \<notin> set (get_available_crops kb)"
  shows "get_crop_advice kb crop topic =
           ''Sorry, I don't have information about '' @ crop @ ''. Available crops: ''
             @ str_join '', '' (map fst kb)
         \<and> str_in crop (get_crop_advice kb crop topic)
         \<and> (\<forall>c \<in> set (map fst kb). str_in c (get_crop_advice kb crop topic))"
proof -
  from assms have n: "map_of kb crop = None" by (simp add: map_of_None_keys)
  then have e: "get_crop_advice kb crop topic =
           ''Sorry, I don't have information about '' @ crop @ ''. Available crops: ''
             @ str_join '', '' (map fst kb)"
    by (simp add: get_crop_advice_def get_available_crops_def)
  have c: "str_in crop (get_crop_advice kb crop topic)"
    unfolding e by (rule str_in_self)
  have k: "str_in c (get_crop_advice kb crop topic)" if "c \<in> set (map fst kb)" for c
  proof -
    from that have "str_in c (str_join '', '' (map fst kb))" by (rule str_in_join)
    then have "str_in c ((''Sorry, I don't have information about '' @ crop @ ''. Available crops: '')
                  @ str_join '', '' (map fst kb) @ [])"
      by (rule str_in_append)
    then show ?thesis unfolding e by simp
  qed
  from e c k show ?thesis by blast
qed

text \<open>The theorem at a knowledge base of three crops and the unknown crop "Maize".\<close>

theorem get_crop_advice_unknown_crop_witness:
  "''Maize'' \<notin> set (get_available_crops [(''Wheat'', []), (''Rice'', []), (''Cotton'', [])])
   \<and> get_crop_advice [(''Wheat'', []), (''Rice'', []), (''Cotton'', [])] ''Maize'' (Some ''soil'') =
       ''Sorry, I don't have information about Maize. Available crops: Wheat, Rice, Cotton''"
proof -
  have h: "''Maize'' \<notin> set (get_available_crops [(''Wheat'', []), (''Rice'', []), (''Cotton'', [])])"
    by (simp add: get_available_crops_def)
  from get_crop_advice_unknown_crop [OF h, of "Some ''soil''"] h show ?thesis by simp
qed

text \<open>
  C4 (as the code has it): for every crop that is a key of the knowledge base and every
  non-empty topic absent from that crop's record, \<open>get_crop_advice\<close> returns the string
  "No information available for {topic} of {crop}." with the topic and the crop verbatim.
  The empty topic is falsy in \<open>if topic:\<close> and is treated as an omitted topic.
\<close>

theorem get_crop_advice_unknown_topic:
  assumes "map_of kb crop = Some info"
  shows "(topic \<noteq> [] \<and> topic \<notin> set (map fst info) \<longrightarrow>
            get_crop_advice kb crop (Some topic) =
              ''No information available for '' @ topic @ '' of '' @ crop @ ''.'')
         \<and> get_crop_advice kb crop (Some []) = get_crop_advice kb crop None"
proof (intro conjI impI)
  assume "topic \<noteq> [] \<and> topic \<notin> set (map fst info)"
  then have "topic \<noteq> []" and "map_of info topic = None"
    by (simp_all add: map_of_eq_None_iff)
  with assms show "get_crop_advice kb crop (Some topic) =
              ''No information available for '' @ topic @ '' of '' @ crop @ ''.''"
    by (simp add: get_crop_advice_def)
next
  from assms show "get_crop_advice kb crop (Some []) = get_crop_advice kb crop None"
    by (simp add: get_crop_advice_def)
qed

text \<open>The theorem at the crop "Wheat" and the absent topic "storage".\<close>

theorem get_crop_advice_unknown_topic_witness:
  "map_of [(''Wheat'', [(''season'', Str ''Rabi'')])] ''Wheat'' = Some [(''season'', Str ''Rabi'')]
   \<and> ''storage'' \<noteq> [] \<and> ''storage'' \<notin> set (map fst [(''season'', Str ''Rabi'')])
   \<and> get_crop_advice [(''Wheat'', [(''season'', Str ''Rabi'')])] ''Wheat'' (Some ''storage'') =
       ''No information available for storage of Wheat.''"
proof -
  have h: "map_of [(''Wheat'', [(''season'', Str ''Rabi'')])] ''Wheat'' = Some [(''season'', Str ''Rabi'')]"
    by simp
  from get_crop_advice_unknown_topic [OF h, of "''storage''"] h show ?thesis by simp
qed

text \<open>
  The empty topic is given and is absent from the record of "Wheat", and the result is the
  general summary, not the "No information available" message.
\<close>

theorem empty_topic_counterexample:
  "map_of [(''Wheat'', [(''season'', Str ''Rabi'')])] ''Wheat'' = Some [(''season'', Str ''Rabi'')]
   \<and> [] \<notin> set (map fst [(''season'', Str ''Rabi'')])
   \<and> get_crop_advice [(''Wheat'', [(''season'', Str ''Rabi'')])] ''Wheat'' (Some []) =
       ''Here's general information about Wheat:\<newline>\<newline>**Season:** Rabi\<newline>\<newline>''
   \<and> get_crop_advice [(''Wheat'', [(''season'', Str ''Rabi'')])] ''Wheat'' (Some []) \<noteq>
       ''No information available for '' @ [] @ '' of '' @ ''Wheat'' @ ''.''"
  by (simp add: get_crop_advice_def main_topics_def topic_block_def str_defs)

text \<open>
  C5: for every known crop, \<open>get_crop_advice\<close> with the topic omitted returns the opening
  line followed by one block (\<open>topic_block\<close>: the heading in title case, then the value)
  for each topic of the fixed list \<open>main_topics\<close> that is present in the crop's record, in
  the order of that list, and nothing for a main topic absent from the record. The last
  conjunct shows the ten headings.
\<close>

theorem get_crop_advice_general:
  assumes "map_of kb crop = Some info" and "\<not> truthy topic"
  shows "get_crop_advice kb crop topic =
           ''Here's general information about '' @ crop @ '':\<newline>\<newline>''
             @ concat (map (\<lambda>t. topic_block t (the (map_of info t)))
                           (filter (\<lambda>t. t \<in> set (map fst info)) main_topics))
         \<and> main_topics =
             [''season'', ''soil'', ''watering'', ''fertilizer'', ''pests'', ''harvesting'',
              ''yield'', ''spacing'', ''varieties'', ''organic_tips'']
         \<and> map (\<lambda>t. topic_block t (Str [])) main_topics =
             [''**Season:** \<newline>\<newline>'', ''**Soil:** \<newline>\<newline>'', ''**Watering:** \<newline>\<newline>'',
              ''**Fertilizer:** \<newline>\<newline>'', ''**Pests:** \<newline>\<newline>'', ''**Harvesting:** \<newline>\<newline>'',
              ''**Yield:** \<newline>\<newline>'', ''**Spacing:** \<newline>\<newline>'', ''**Varieties:** \<newline>\<newline>'',
              ''**Organic Tips:** \<newline>\<newline>'']"
proof (intro conjI)
  from assms show "get_crop_advice kb crop topic =
           ''Here's general information about '' @ crop @ '':\<newline>\<newline>''
             @ concat (map (\<lambda>t. topic_block t (the (map_of info t)))
                           (filter (\<lambda>t. t \<in> set (map fst info)) main_topics))"
    by (simp add: get_crop_advice_def general_loop_blocks)
next
  show "main_topics =
             [''season'', ''soil'', ''watering'', ''fertilizer'', ''pests'', ''harvesting'',
              ''yield'', ''spacing'', ''varieties'', ''organic_tips'']"
    by (simp add: main_topics_def)
next
  show "map (\<lambda>t. topic_block t (Str [])) main_topics =
             [''**Season:** \<newline>\<newline>'', ''**Soil:** \<newline>\<newline>'', ''**Watering:** \<newline>\<newline>'',
              ''**Fertilizer:** \<newline>\<newline>'', ''**Pests:** \<newline>\<newline>'', ''**Harvesting:** \<newline>\<newline>'',
              ''**Yield:** \<newline>\<newline>'', ''**Spacing:** \<newline>\<newline>'', ''**Varieties:** \<newline>\<newline>'',
              ''**Organic Tips:** \<newline>\<newline>'']"
    by (simp add: main_topics_def topic_block_def str_defs)
qed

text \<open>
  The theorem at a record that holds "watering" before "season" and the topic "storage",
  which is not a main topic.
\<close>

theorem get_crop_advice_general_witness:
  "map_of [(''Wheat'', [(''storage'', Str ''Dry bins''),
                        (''watering'', Lst [''Water every 3 days'', ''Avoid waterlogging'']),
                        (''season'', Str ''Rabi'')])] ''Wheat''
     = Some [(''storage'', Str ''Dry bins''),
             (''watering'', Lst [''Water every 3 days'', ''Avoid waterlogging'']),
             (''season'', Str ''Rabi'')]
   \<and> \<not> truthy None
   \<and> get_crop_advice [(''Wheat'', [(''storage'', Str ''Dry bins''),
                        (''watering'', Lst [''Water every 3 days'', ''Avoid waterlogging'']),
                        (''season'', Str ''Rabi'')])] ''Wheat'' None
     = ''Here's general information about Wheat:\<newline>\<newline>''
         @ ''**Season:** Rabi\<newline>\<newline>''
         @ ''**Watering:** Water every 3 days\<newline>'' @ bullet @ ''Avoid waterlogging\<newline>\<newline>''"
proof -
  have h: "map_of [(''Wheat'', [(''storage'', Str ''Dry bins''),
                        (''watering'', Lst [''Water every 3 days'', ''Avoid waterlogging'']),
                        (''season'', Str ''Rabi'')])] ''Wheat''
     = Some [(''storage'', Str ''Dry bins''),
             (''watering'', Lst [''Water every 3 days'', ''Avoid waterlogging'']),
             (''season'', Str ''Rabi'')]"
    by simp
  have t: "\<not> truthy None" by simp
  from get_crop_advice_general [OF h t, THEN conjunct1] h t show ?thesis
    by (simp add: main_topics_def topic_block_def str_defs)
qed

text \<open>
  C8: when the loaded knowledge base maps crop "Wheat" and topic "watering" to the list
  ["Water every 3 days", "Avoid waterlogging"], \<open>get_crop_advice\<close> for ("Wheat",
  "watering") returns exactly those two facts, each on its own line after the bullet
  marker, in the order of the list.
\<close>

theorem get_crop_advice_wheat_watering:
  assumes "fs filename = Some kb"
    and "map_of kb ''Wheat'' = Some info"
    and "map_of info ''watering'' = Some (Lst [''Water every 3 days'', ''Avoid waterlogging''])"
  shows "get_crop_advice (snd (load_crop_data_safe fs filename)) ''Wheat'' (Some ''watering'') =
           bullet @ ''Water every 3 days'' @ ''\<newline>'' @ bullet @ ''Avoid waterlogging''"
  using assms by (simp add: load_crop_data_safe_def get_crop_advice_def)

text \<open>The theorem at a file that holds two crops.\<close>

theorem get_crop_advice_wheat_watering_witness:
  "[''data/crop_data.json'' \<mapsto>
      [(''Rice'', []),
       (''Wheat'', [(''season'', Str ''Rabi''),
                    (''watering'', Lst [''Water every 3 days'', ''Avoid waterlogging''])])]]
     ''data/crop_data.json''
   = Some [(''Rice'', []),
       (''Wheat'', [(''season'', Str ''Rabi''),
                    (''watering'', Lst [''Water every 3 days'', ''Avoid waterlogging''])])]
   \<and> get_crop_advice
       (snd (load_crop_data_safe
          [''data/crop_data.json'' \<mapsto>
             [(''Rice'', []),
              (''Wheat'', [(''season'', Str ''Rabi''),
                           (''watering'', Lst [''Water every 3 days'', ''Avoid waterlogging''])])]]
          ''data/crop_data.json''))
       ''Wheat'' (Some ''watering'')
     = bullet @ ''Water every 3 days'' @ ''\<newline>'' @ bullet @ ''Avoid waterlogging''"
proof -
  have f: "[''data/crop_data.json'' \<mapsto>
      [(''Rice'', []),
       (''Wheat'', [(''season'', Str ''Rabi''),
                    (''watering'', Lst [''Water every 3 days'', ''Avoid waterlogging''])])]]
     ''data/crop_data.json''
   = Some [(''Rice'', []),
       (''Wheat'', [(''season'', Str ''Rabi''),
                    (''watering'', Lst [''Water every 3 days'', ''Avoid waterlogging''])])]"
    by simp
  have k: "map_of [(''Rice'', []),
       (''Wheat'', [(''season'', Str ''Rabi''),
                    (''watering'', Lst [''Water every 3 days'', ''Avoid waterlogging''])])] ''Wheat''
     = Some [(''season'', Str ''Rabi''),
                    (''watering'', Lst [''Water every 3 days'', ''Avoid waterlogging''])]"
    by simp
  have w: "map_of [(''season'', Str ''Rabi''),
                    (''watering'', Lst [''Water every 3 days'', ''Avoid waterlogging''])] ''watering''
     = Some (Lst [''Water every 3 days'', ''Avoid waterlogging''])"
    by simp
  from get_crop_advice_wheat_watering
         [of "[''data/crop_data.json'' \<mapsto>
                [(''Rice'', []),
                 (''Wheat'', [(''season'', Str ''Rabi''),
                    (''watering'', Lst [''Water every 3 days'', ''Avoid waterlogging''])])]]"
             "''data/crop_data.json''", OF f k w] f
  show ?thesis by simp
qed

section \<open>Message processing\<close>

text \<open>The decision chain of \<open>process_message\<close>, one lemma for each rule.\<close>

lemma process_message_greets:
  assumes "str_in ''hello'' (lower message) \<or> str_in ''hi'' (lower message)
           \<or> str_in ''hey'' (lower message)"
  shows "process_message lower kb message hint = greeting_response"
  using assms by (auto simp add: process_message_def Let_def)

lemma process_message_lists_crops:
  assumes "\<not> (str_in ''hello'' (lower message) \<or> str_in ''hi'' (lower message)
              \<or> str_in ''hey'' (lower message))"
    and "str_in ''what crops'' (lower message) \<or> str_in ''available crops'' (lower message)"
  shows "process_message lower kb message hint =
           \<lparr>response = ''I have information about: '' @ str_join '', '' (map fst kb),
            crop_type = None,
            suggestions = Some (map (\<lambda>c. ''Complete guide for '' @ c) (take 4 (map fst kb)))\<rparr>"
  using assms by (auto simp add: process_message_def Let_def get_available_crops_def)




text \<open>
  C6: for every message whose lowercased form contains "hello", "hi" or "hey" as a
  substring, \<open>process_message\<close> returns the canned greeting text as the response, with
  exactly two suggestion strings, whatever the knowledge base, the crop hint and the
  lowercasing function.
\<close>

theorem process_message_greeting:
  assumes "str_in ''hello'' (lower message) \<or> str_in ''hi'' (lower message)
           \<or> str_in ''hey'' (lower message)"
  shows "response (process_message lower kb message hint) =
           ''Hello! I'm your farming assistant. I can help you with crop info, irrigation, fertilizers, pests, and more.''
         \<and> suggestions (process_message lower kb message hint) =
             Some [''What crops do you know about?'', ''Tell me about wheat farming'']
         \<and> map_option length (suggestions (process_message lower kb message hint)) = Some 2"
proof -
  from assms have "process_message lower kb message hint = greeting_response" for hint
    by (rule process_message_greets)
  then show ?thesis by (simp add: greeting_response_def)
qed

text \<open>The theorem at a message that contains "hi" inside the word "THIS".\<close>

theorem process_message_greeting_witness:
  "(str_in ''hello'' (ascii_lower ''Is THIS soil fine?'') \<or> str_in ''hi'' (ascii_lower ''Is THIS soil fine?'')
      \<or> str_in ''hey'' (ascii_lower ''Is THIS soil fine?''))
   \<and> response (process_message ascii_lower [(''Wheat'', [])] ''Is THIS soil fine?'' None) =
       ''Hello! I'm your farming assistant. I can help you with crop info, irrigation, fertilizers, pests, and more.''
   \<and> suggestions (process_message ascii_lower [(''Wheat'', [])] ''Is THIS soil fine?'' None) =
       Some [''What crops do you know about?'', ''Tell me about wheat farming'']"
proof -
  have h: "str_in ''hello'' (ascii_lower ''Is THIS soil fine?'') \<or> str_in ''hi'' (ascii_lower ''Is THIS soil fine?'')
      \<or> str_in ''hey'' (ascii_lower ''Is THIS soil fine?'')"
    by (simp add: str_defs)
  from process_message_greeting
         [where lower = ascii_lower and message = "''Is THIS soil fine?''"
            and kb = "[(''Wheat'', [])]" and hint = None, OF h] h
  show ?thesis by blast
qed

text \<open>
  C10: the greeting rule takes precedence over the crop hint. For every message whose
  lowercased form contains "hello", "hi" or "hey" and every crop hint, the response is the
  greeting response with \<open>crop_type = None\<close>; it is the response returned for the same
  message without a hint, so the hint is dropped. This holds for every lowercasing
  function.
\<close>

theorem greeting_drops_crop_hint:
  assumes "str_in ''hello'' (lower message) \<or> str_in ''hi'' (lower message)
           \<or> str_in ''hey'' (lower message)"
  shows "crop_type (process_message lower kb message hint) = None
         \<and> process_message lower kb message hint = process_message lower kb message None
         \<and> process_message lower kb message hint = greeting_response"
proof -
  from assms have "process_message lower kb message hint = greeting_response" for hint
    by (rule process_message_greets)
  then show ?thesis by (simp add: greeting_response_def)
qed

text \<open>The theorem at a hint that names the known crop "Wheat".\<close>

theorem greeting_drops_crop_hint_witness:
  "(str_in ''hello'' (ascii_lower ''Hello, how do I water it?'')
      \<or> str_in ''hi'' (ascii_lower ''Hello, how do I water it?'')
      \<or> str_in ''hey'' (ascii_lower ''Hello, how do I water it?''))
   \<and> ''Wheat'' \<in> set (get_available_crops [(''Wheat'', [(''watering'', Str ''Weekly'')])])
   \<and> crop_type (process_message ascii_lower [(''Wheat'', [(''watering'', Str ''Weekly'')])]
                  ''Hello, how do I water it?'' (Some ''Wheat'')) = None"
proof -
  have h: "str_in ''hello'' (ascii_lower ''Hello, how do I water it?'')
      \<or> str_in ''hi'' (ascii_lower ''Hello, how do I water it?'')
      \<or> str_in ''hey'' (ascii_lower ''Hello, how do I water it?'')"
    by (simp add: str_defs)
  have k: "''Wheat'' \<in> set (get_available_crops [(''Wheat'', [(''watering'', Str ''Weekly'')])])"
    by (simp add: get_available_crops_def)
  from greeting_drops_crop_hint
         [where lower = ascii_lower and message = "''Hello, how do I water it?''"
            and kb = "[(''Wheat'', [(''watering'', Str ''Weekly'')])]"
            and hint = "Some ''Wheat''", OF h] h k
  show ?thesis by blast
qed

text \<open>
  C7: for every message whose lowercased form contains "what crops" or "available crops"
  and no greeting substring, \<open>process_message\<close> returns the response that lists every crop
  name of the knowledge base, joined by ", ", and the suggestions "Complete guide for
  {crop}" for the first four crop names in insertion order: \<open>min 4 (length kb)\<close> of them.
  This holds for every lowercasing function.
\<close>

theorem process_message_available_crops:
  assumes "\<not> (str_in ''hello'' (lower message) \<or> str_in ''hi'' (lower message)
              \<or> str_in ''hey'' (lower message))"
    and "str_in ''what crops'' (lower message) \<or> str_in ''available crops'' (lower message)"
  shows "response (process_message lower kb message hint) =
           ''I have information about: '' @ str_join '', '' (map fst kb)
         \<and> (\<forall>c \<in> set (map fst kb). str_in c (response (process_message lower kb message hint)))
         \<and> suggestions (process_message lower kb message hint) =
             Some (map (\<lambda>c. ''Complete guide for '' @ c) (take 4 (map fst kb)))
         \<and> map_option length (suggestions (process_message lower kb message hint)) =
             Some (min 4 (length kb))"
proof -
  have e: "process_message lower kb message hint =
           \<lparr>response = ''I have information about: '' @ str_join '', '' (map fst kb),
            crop_type = None,
            suggestions = Some (map (\<lambda>c. ''Complete guide for '' @ c) (take 4 (map fst kb)))\<rparr>"
    using assms by (rule process_message_lists_crops)
  have k: "str_in c (response (process_message lower kb message hint))" if "c \<in> set (map fst kb)" for c
  proof -
    from that have "str_in c (str_join '', '' (map fst kb))" by (rule str_in_join)
    then have "str_in c (''I have information about: '' @ str_join '', '' (map fst kb) @ [])"
      by (rule str_in_append)
    then show ?thesis unfolding e by simp
  qed
  have l: "map_option length (suggestions (process_message lower kb message hint)) =
             Some (min 4 (length kb))"
    unfolding e by (simp add: min_def)
  from k l show ?thesis unfolding e by simp
qed

text \<open>The theorem at a knowledge base of five crops: four suggestions.\<close>

theorem process_message_available_crops_witness:
  "\<not> (str_in ''hello'' (ascii_lower ''What crops do you have?'')
        \<or> str_in ''hi'' (ascii_lower ''What crops do you have?'')
        \<or> str_in ''hey'' (ascii_lower ''What crops do you have?''))
   \<and> (str_in ''what crops'' (ascii_lower ''What crops do you have?'')
        \<or> str_in ''available crops'' (ascii_lower ''What crops do you have?''))
   \<and> response (process_message ascii_lower
        [(''Wheat'', []), (''Rice'', []), (''Maize'', []), (''Cotton'', []), (''Tomato'', [])]
        ''What crops do you have?'' None) =
       ''I have information about: Wheat, Rice, Maize, Cotton, Tomato''
   \<and> suggestions (process_message ascii_lower
        [(''Wheat'', []), (''Rice'', []), (''Maize'', []), (''Cotton'', []), (''Tomato'', [])]
        ''What crops do you have?'' None) =
       Some [''Complete guide for Wheat'', ''Complete guide for Rice'',
             ''Complete guide for Maize'', ''Complete guide for Cotton'']"
proof -
  have g: "\<not> (str_in ''hello'' (ascii_lower ''What crops do you have?'')
        \<or> str_in ''hi'' (ascii_lower ''What crops do you have?'')
        \<or> str_in ''hey'' (ascii_lower ''What crops do you have?''))"
    by (simp add: str_defs)
  have c: "str_in ''what crops'' (ascii_lower ''What crops do you have?'')
        \<or> str_in ''available crops'' (ascii_lower ''What crops do you have?'')"
    by (simp add: str_defs)
  from process_message_available_crops
         [where lower = ascii_lower and message = "''What crops do you have?''"
            and kb = "[(''Wheat'', []), (''Rice'', []), (''Maize'', []), (''Cotton'', []), (''Tomato'', [])]"
            and hint = None, OF g c]
       g c
  show ?thesis by simp
qed



end
